theory Spec2Isabelle
  imports Main "HOL-Library.Sublist"
begin

section \<open>Python values, exceptions and the store of dict objects\<close>

text \<open>
  \<^verbatim>\<open>zipline/modelling/pipeline.py\<close> defines one class, \<^verbatim>\<open>Pipeline\<close>, whose instances
  hold a name, a reference to a Python \<^verbatim>\<open>dict\<close> (the columns) and a screen. The dict is a
  mutable object that the pipeline shares with whoever passed it to the constructor, and
  \<^verbatim>\<open>to_graph\<close> works on a \<^verbatim>\<open>.copy()\<close> of it. Dict objects therefore live in an explicit
  store, addressed by references; a pipeline holds the address of its dict.
\<close>

type_synonym addr = nat

text \<open>The concrete subclasses of \<^verbatim>\<open>Term\<close> named by the docstring of \<^verbatim>\<open>add\<close>.\<close>

datatype klass = Factor | Filter | Classifier

text \<open>
  The Python values that reach the methods: \<^verbatim>\<open>None\<close>, strings, integers (the tests pass
  \<^verbatim>\<open>1\<close> where a string or a dict is expected), references to dicts, and term objects (a
  class and an identity).
\<close>

datatype pyobj =
    PyNone
  | PyStr string
  | PyInt int
  | PyDict addr
  | PyTerm klass nat

type_synonym pydict = "pyobj \<rightharpoonup> pyobj"

record heap =
  dicts :: "addr \<Rightarrow> pydict"
  nxt :: addr

text \<open>Exceptions carry their \<^verbatim>\<open>args\<close> tuple.\<close>

datatype exn =
    TypeError
  | KeyError "pyobj list"
  | ValueError "pyobj list"

subsection \<open>Built-in dict operations\<close>

text \<open>A dict is unhashable; every other value above can be a key.\<close>

definition hashable :: "pyobj \<Rightarrow> bool" where
  "hashable k = (case k of PyDict _ \<Rightarrow> False | _ \<Rightarrow> True)"

text \<open>\<^verbatim>\<open>{}\<close> and \<^verbatim>\<open>d.copy()\<close> allocate a new dict object at the next free address.\<close>

definition dict_new :: "heap \<Rightarrow> pydict \<Rightarrow> addr \<times> heap" where
  "dict_new h m = (nxt h, h\<lparr>dicts := (dicts h)(nxt h := m), nxt := Suc (nxt h)\<rparr>)"

definition dict_copy :: "heap \<Rightarrow> addr \<Rightarrow> addr \<times> heap" where
  "dict_copy h a = dict_new h (dicts h a)"

text \<open>
  \<^verbatim>\<open>k in d\<close>. The only caller, \<^verbatim>\<open>add\<close>, passes a key that \<^verbatim>\<open>expect_types\<close> has checked
  to be a string, so the \<^verbatim>\<open>TypeError\<close> of an unhashable key cannot arise here.
\<close>

definition dict_contains :: "heap \<Rightarrow> addr \<Rightarrow> pyobj \<Rightarrow> bool" where
  "dict_contains h a k = (dicts h a k \<noteq> None)"

text \<open>\<^verbatim>\<open>d[k] = v\<close>\<close>

definition dict_setitem :: "heap \<Rightarrow> addr \<Rightarrow> pyobj \<Rightarrow> pyobj \<Rightarrow> (exn + unit) \<times> heap" where
  "dict_setitem h a k v =
     (if hashable k
      then (Inr (), h\<lparr>dicts := (dicts h)(a := (dicts h a)(k \<mapsto> v))\<rparr>)
      else (Inl TypeError, h))"

text \<open>\<^verbatim>\<open>d.pop(k)\<close> without a default: \<^verbatim>\<open>KeyError(k)\<close> when the key is absent.\<close>

definition dict_pop :: "heap \<Rightarrow> addr \<Rightarrow> pyobj \<Rightarrow> (exn + pyobj) \<times> heap" where
  "dict_pop h a k =
     (if hashable k
      then (case dicts h a k of
              None \<Rightarrow> (Inl (KeyError [k]), h)
            | Some v \<Rightarrow> (Inr v, h\<lparr>dicts := (dicts h)(a := (dicts h a)(k := None))\<rparr>))
      else (Inl TypeError, h))"

subsection \<open>Argument validation\<close>

datatype pytype = T_str | T_dict | T_NoneType | T_Term | T_Filter

text \<open>
  Modelled from the spec: the classes \<^verbatim>\<open>Term\<close> and \<^verbatim>\<open>Filter\<close>
  (\<^verbatim>\<open>zipline.modelling.term\<close>, \<^verbatim>\<open>zipline.modelling.filter\<close>) are imported by the source
  but not part of it. The spec describes them as capabilities: a Factor, a Filter and a
  Classifier are Terms, and being a Filter is a sub-capability of being a Term.
\<close>

fun isinstance :: "pyobj \<Rightarrow> pytype \<Rightarrow> bool" where
  "isinstance v T_str = (case v of PyStr s \<Rightarrow> True | _ \<Rightarrow> False)"
| "isinstance v T_dict = (case v of PyDict a \<Rightarrow> True | _ \<Rightarrow> False)"
| "isinstance v T_NoneType = (v = PyNone)"
| "isinstance v T_Term = (case v of PyTerm c i \<Rightarrow> True | _ \<Rightarrow> False)"
| "isinstance v T_Filter = (case v of PyTerm c i \<Rightarrow> c = Filter | _ \<Rightarrow> False)"

text \<open>
  Modelled from the spec: the decorator \<^verbatim>\<open>expect_types\<close> and the helper \<^verbatim>\<open>optional\<close>
  (\<^verbatim>\<open>zipline.utils.preprocess\<close>) are imported by the source but not part of it. By the
  spec, a type mismatch on an argument is raised at the call, before the body of the
  decorated function runs and so before any state is changed; an optional argument also
  admits \<^verbatim>\<open>None\<close>. Each check pairs the argument's value with the types it admits; the
  state \<open>st\<close> is what the caller sees when the check fails.
\<close>

definition optional :: "pytype \<Rightarrow> pytype list" where
  "optional t = [t, T_NoneType]"

definition expect_types ::
  "(pyobj \<times> pytype list) list \<Rightarrow> 's \<Rightarrow> (exn + 'a) \<times> 's \<Rightarrow> (exn + 'a) \<times> 's" where
  "expect_types checks st body =
     (if list_all (\<lambda>(v, ts). list_ex (isinstance v) ts) checks
      then body
      else (Inl TypeError, st))"

text \<open>Sequencing of two statements, the first of which may raise.\<close>

definition then_do ::
  "(exn + 'a) \<times> 's \<Rightarrow> ('a \<Rightarrow> 's \<Rightarrow> (exn + 'b) \<times> 's) \<Rightarrow> (exn + 'b) \<times> 's" where
  "then_do m f = (case m of (Inl e, s) \<Rightarrow> (Inl e, s) | (Inr x, s) \<Rightarrow> f x s)"

section \<open>The Pipeline class\<close>

text \<open>The slots \<^verbatim>\<open>_name\<close>, \<^verbatim>\<open>_columns\<close> and \<^verbatim>\<open>_screen\<close>.\<close>

record Pipeline =
  p_name :: pyobj
  p_columns :: addr
  p_screen :: pyobj

text \<open>
  \<^verbatim>\<open>__init__(self, name, columns=None, screen=None)\<close>. An omitted argument is \<^verbatim>\<open>None\<close>.
  The constructor either raises or returns the new instance. The last branch of the case
  cannot be reached: \<^verbatim>\<open>expect_types\<close> admits only a dict or \<^verbatim>\<open>None\<close> for \<^verbatim>\<open>columns\<close>.
\<close>

definition init :: "heap \<Rightarrow> pyobj \<Rightarrow> pyobj \<Rightarrow> pyobj \<Rightarrow> (exn + Pipeline) \<times> heap" where
  "init h name columns screen =
     expect_types
       [(name, [T_str]), (columns, optional T_dict), (screen, optional T_Filter)] h
       (case columns of
          PyNone \<Rightarrow>
            (case dict_new h Map.empty of
               (a, h') \<Rightarrow> (Inr \<lparr>p_name = name, p_columns = a, p_screen = screen\<rparr>, h'))
        | PyDict a \<Rightarrow> (Inr \<lparr>p_name = name, p_columns = a, p_screen = screen\<rparr>, h)
        | _ \<Rightarrow> (Inl TypeError, h))"

text \<open>The read-only properties \<^verbatim>\<open>name\<close>, \<^verbatim>\<open>columns\<close> and \<^verbatim>\<open>screen\<close>.\<close>

definition Pipeline_name :: "Pipeline \<Rightarrow> pyobj" where
  "Pipeline_name self = p_name self"

definition Pipeline_columns :: "Pipeline \<Rightarrow> addr" where
  "Pipeline_columns self = p_columns self"

definition Pipeline_screen :: "Pipeline \<Rightarrow> pyobj" where
  "Pipeline_screen self = p_screen self"

text \<open>
  \<^verbatim>\<open>remove(self, name)\<close>: \<^verbatim>\<open>return self.columns.pop(name)\<close>, under
  \<^verbatim>\<open>@expect_types(name=str)\<close>.
\<close>

definition remove :: "heap \<Rightarrow> Pipeline \<Rightarrow> pyobj \<Rightarrow> (exn + pyobj) \<times> heap \<times> Pipeline" where
  "remove h self name =
     expect_types [(name, [T_str])] (h, self)
       (case dict_pop h (Pipeline_columns self) name of (r, h') \<Rightarrow> (r, h', self))"

text \<open>
  \<^verbatim>\<open>"Column '{}' already exists.".format(name)\<close>; \<^verbatim>\<open>name\<close> is a string when the
  message is built.
\<close>

definition exists_message :: "pyobj \<Rightarrow> string" where
  "exists_message name =
     ''Column '' @ [CHR 0x27] @ (case name of PyStr s \<Rightarrow> s | _ \<Rightarrow> [])
       @ [CHR 0x27] @ '' already exists.''"

text \<open>
  \<^verbatim>\<open>add(self, term, name, overwrite=False)\<close>, under
  \<^verbatim>\<open>@expect_types(term=Term, name=str)\<close>. The call \<^verbatim>\<open>self.remove(name)\<close> looks the
  method up on the instance when \<^verbatim>\<open>add\<close> runs, so an instance of a subclass that
  overrides \<^verbatim>\<open>remove\<close> has its own method called. The body of \<^verbatim>\<open>add\<close> is therefore
  \<open>add_with\<close>, which takes the method \<open>rm\<close> that the lookup yields; the value that
  \<open>rm\<close> returns is dropped, and an exception from it propagates. The last statement,
  \<^verbatim>\<open>self._columns[name] = term\<close>, runs when the guard above it has not raised, on the
  state that the guard has left.
\<close>

definition add_with ::
  "(heap \<Rightarrow> Pipeline \<Rightarrow> pyobj \<Rightarrow> (exn + pyobj) \<times> heap \<times> Pipeline) \<Rightarrow>
   heap \<Rightarrow> Pipeline \<Rightarrow> pyobj \<Rightarrow> pyobj \<Rightarrow> bool \<Rightarrow> (exn + unit) \<times> heap \<times> Pipeline" where
  "add_with rm h self trm name overwrite =
     expect_types [(trm, [T_Term]), (name, [T_str])] (h, self)
       (then_do
          (if dict_contains h (Pipeline_columns self) name
           then (if overwrite
                 then then_do (rm h self name) (\<lambda>removed s. (Inr (), s))
                 else (Inl (KeyError [PyStr (exists_message name)]), h, self))
           else (Inr (), h, self))
          (\<lambda>u (h', self').
             case dict_setitem h' (p_columns self') name trm of
               (r, h'') \<Rightarrow> (r, h'', self')))"

text \<open>On an instance of \<^verbatim>\<open>Pipeline\<close> itself, \<^verbatim>\<open>self.remove\<close> is the method above.\<close>

definition add ::
  "heap \<Rightarrow> Pipeline \<Rightarrow> pyobj \<Rightarrow> pyobj \<Rightarrow> bool \<Rightarrow> (exn + unit) \<times> heap \<times> Pipeline" where
  "add h self trm name overwrite = add_with remove h self trm name overwrite"

text \<open>The literal text of the error that \<^verbatim>\<open>set_screen\<close> raises.\<close>

definition set_screen_message :: string where
  "set_screen_message =
     ''set_screen() called with overwrite=False and screen already set.'' @ [CHR 0x0A]
     @ ''If you want to apply multiple filters as a screen use ''
     @ ''set_screen(filter1 & filter2 & ...)'' @ ''.'' @ [CHR 0x0A]
     @ ''If you want to replace the previous screen with a new one, use ''
     @ ''set_screen(new_filter, overwrite=True)'' @ ''.''"

text \<open>
  \<^verbatim>\<open>set_screen(self, screen, overwrite=False)\<close>, under
  \<^verbatim>\<open>@expect_types(screen=Filter)\<close>.
\<close>

definition set_screen ::
  "heap \<Rightarrow> Pipeline \<Rightarrow> pyobj \<Rightarrow> bool \<Rightarrow> (exn + unit) \<times> heap \<times> Pipeline" where
  "set_screen h self screen overwrite =
     expect_types [(screen, [T_Filter])] (h, self)
       (if p_screen self \<noteq> PyNone \<and> \<not> overwrite
        then (Inl (ValueError [PyStr set_screen_message]), h, self)
        else (Inr (), h, self\<lparr>p_screen := screen\<rparr>))"

text \<open>
  \<^verbatim>\<open>to_graph(self, screen_name, default_screen)\<close>; it has no decorator, so its arguments
  are not checked. The class \<^verbatim>\<open>TermGraph\<close> (\<^verbatim>\<open>zipline.modelling.graph\<close>) is imported by
  the source but not part of it: it is the parameter \<open>TermGraph\<close>, which reads the dict
  it is given and returns the compiled graph or raises.
\<close>

definition to_graph ::
  "(pydict \<Rightarrow> exn + 'g) \<Rightarrow> heap \<Rightarrow> Pipeline \<Rightarrow> pyobj \<Rightarrow> pyobj \<Rightarrow> (exn + 'g) \<times> heap \<times> Pipeline" where
  "to_graph TermGraph h self screen_name default_screen =
     (case dict_copy h (Pipeline_columns self) of
        (columns, h1) \<Rightarrow>
          (let screen = Pipeline_screen self;
               screen = (if screen = PyNone then default_screen else screen)
           in then_do
                (case dict_setitem h1 columns screen_name screen of
                   (r, h2) \<Rightarrow> (r, h2, self))
                (\<lambda>u (h2, self'). (TermGraph (dicts h2 columns), h2, self'))))"

text \<open>
  What a caller can observe of a pipeline: its name, the contents of its columns dict
  and its screen.
\<close>

definition observe :: "heap \<Rightarrow> Pipeline \<Rightarrow> pyobj \<times> pydict \<times> pyobj" where
  "observe h self =
     (Pipeline_name self, dicts h (Pipeline_columns self), Pipeline_screen self)"

text \<open>The dict of a pipeline is an allocated object of the store.\<close>

definition allocated :: "heap \<Rightarrow> Pipeline \<Rightarrow> bool" where
  "allocated h self = (p_columns self < nxt h)"


section \<open>Auxiliary facts\<close>

lemma isinstance_strE: "isinstance v T_str \<Longrightarrow> \<exists>s. v = PyStr s"
  by (cases v) simp_all

lemma remove_str:
  "remove h self (PyStr s) =
     (case dicts h (p_columns self) (PyStr s) of
        None \<Rightarrow> (Inl (KeyError [PyStr s]), h, self)
      | Some v \<Rightarrow>
          (Inr v,
           h\<lparr>dicts := (dicts h)(p_columns self := (dicts h (p_columns self))(PyStr s := None))\<rparr>,
           self))"
  by (simp add: remove_def expect_types_def dict_pop_def hashable_def Pipeline_columns_def
      split: option.split)

lemma remove_not_str:
  "\<not> isinstance name T_str \<Longrightarrow> remove h self name = (Inl TypeError, h, self)"
  by (simp add: remove_def expect_types_def)

lemma add_str:
  "isinstance trm T_Term \<Longrightarrow>
   add h self trm (PyStr s) overwrite =
     (if dicts h (p_columns self) (PyStr s) \<noteq> None \<and> \<not> overwrite
      then (Inl (KeyError [PyStr (exists_message (PyStr s))]), h, self)
      else (Inr (),
            h\<lparr>dicts := (dicts h)(p_columns self := (dicts h (p_columns self))(PyStr s \<mapsto> trm))\<rparr>,
            self))"
  by (auto simp add: add_def add_with_def expect_types_def then_do_def remove_str
      dict_contains_def dict_setitem_def hashable_def Pipeline_columns_def split: option.split)

lemma add_bad_types:
  "\<not> (isinstance trm T_Term \<and> isinstance name T_str) \<Longrightarrow>
   add h self trm name overwrite = (Inl TypeError, h, self)"
  by (auto simp add: add_def add_with_def expect_types_def)


lemma set_screen_eq:
  "set_screen h self screen overwrite =
     (if \<not> isinstance screen T_Filter then (Inl TypeError, h, self)
      else if p_screen self \<noteq> PyNone \<and> \<not> overwrite
      then (Inl (ValueError [PyStr set_screen_message]), h, self)
      else (Inr (), h, self\<lparr>p_screen := screen\<rparr>))"
  by (simp add: set_screen_def expect_types_def)

lemma remove_raises:
  assumes "remove h self name = (Inl e, h', self')"
  shows "h' = h \<and> self' = self"
proof (cases "isinstance name T_str")
  case True
  then obtain s where "name = PyStr s" using isinstance_strE by blast
  with assms show ?thesis by (simp add: remove_str split: option.splits)
next
  case False
  with assms show ?thesis by (simp add: remove_not_str)
qed

lemma add_raises:
  assumes "add h self trm name overwrite = (Inl e, h', self')"
  shows "h' = h \<and> self' = self"
proof (cases "isinstance trm T_Term \<and> isinstance name T_str")
  case True
  then obtain s where "name = PyStr s" using isinstance_strE by blast
  with True assms show ?thesis by (simp add: add_str split: if_splits)
next
  case False
  with assms show ?thesis by (simp add: add_bad_types)
qed

lemma set_screen_raises:
  "set_screen h self screen overwrite = (Inl e, h', self') \<Longrightarrow> h' = h \<and> self' = self"
  by (simp add: set_screen_eq split: if_splits)

lemma to_graph_eq:
  "to_graph TermGraph h self screen_name default_screen =
     (let m = dicts h (p_columns self);
          screen = (if p_screen self = PyNone then default_screen else p_screen self);
          h1 = h\<lparr>dicts := (dicts h)(nxt h := m), nxt := Suc (nxt h)\<rparr>
      in if hashable screen_name
         then (TermGraph (m(screen_name \<mapsto> screen)),
               h\<lparr>dicts := (dicts h)(nxt h := m(screen_name \<mapsto> screen)), nxt := Suc (nxt h)\<rparr>,
               self)
         else (Inl TypeError, h1, self))"
  by (simp add: to_graph_def dict_copy_def dict_new_def dict_setitem_def then_do_def
      Pipeline_columns_def Pipeline_screen_def Let_def)

text \<open>
  The hypothesis \<open>allocated\<close> of the theorems on \<^verbatim>\<open>to_graph\<close> holds of every pipeline that
  the program can build: the constructor establishes it (given that a dict passed to it
  is an object of the store), and every method keeps it.
\<close>

lemma init_allocated:
  assumes "init h name columns screen = (Inr p, h')"
    and "\<And>a. columns = PyDict a \<Longrightarrow> a < nxt h"
  shows "allocated h' p"
  using assms
  by (cases columns)
     (auto simp add: init_def expect_types_def optional_def dict_new_def allocated_def
      split: if_splits)

lemma add_allocated:
  assumes "allocated h self" and "add h self trm name overwrite = (r, h', self')"
  shows "allocated h' self'"
proof (cases "isinstance trm T_Term \<and> isinstance name T_str")
  case True
  then obtain s where "name = PyStr s" using isinstance_strE by blast
  with True assms show ?thesis
    by (auto simp add: add_str allocated_def split: if_splits)
next
  case False
  with assms show ?thesis by (simp add: add_bad_types)
qed

lemma remove_allocated:
  assumes "allocated h self" and "remove h self name = (r, h', self')"
  shows "allocated h' self'"
proof (cases "isinstance name T_str")
  case True
  then obtain s where "name = PyStr s" using isinstance_strE by blast
  with assms show ?thesis
    by (auto simp add: remove_str allocated_def split: option.splits)
next
  case False
  with assms show ?thesis by (simp add: remove_not_str)
qed

lemma set_screen_allocated:
  "allocated h self \<Longrightarrow> set_screen h self screen overwrite = (r, h', self')
   \<Longrightarrow> allocated h' self'"
  by (auto simp add: set_screen_eq allocated_def split: if_splits)

lemma to_graph_allocated:
  "allocated h self \<Longrightarrow> to_graph TermGraph h self screen_name default_screen = (r, h', self')
   \<Longrightarrow> allocated h' self'"
  by (auto simp add: to_graph_eq allocated_def Let_def split: if_splits)

section \<open>The claims\<close>

text \<open>
  C1. When the columns of a pipeline already bind the string \<open>s\<close>, \<^verbatim>\<open>add(term, s)\<close> with
  \<^verbatim>\<open>overwrite=False\<close> raises a \<^verbatim>\<open>KeyError\<close> whose message is
  \<^verbatim>\<open>Column 's' already exists.\<close>, which contains the colliding name; the store and the
  pipeline are returned as they were, so \<open>s\<close> is still bound to its prior term \<open>t\<close>.
\<close>

theorem add_collision:
  assumes "isinstance trm T_Term"
    and "dicts h (Pipeline_columns self) (PyStr s) = Some t"
  shows "\<exists>msg h' self'.
           add h self trm (PyStr s) False = (Inl (KeyError [PyStr msg]), h', self')
         \<and> msg = ''Column '' @ [CHR 0x27] @ s @ [CHR 0x27] @ '' already exists.''
         \<and> sublist s msg
         \<and> h' = h \<and> self' = self
         \<and> dicts h' (Pipeline_columns self') = dicts h (Pipeline_columns self)
         \<and> dicts h' (Pipeline_columns self') (PyStr s) = Some t"
proof -
  let ?msg = "''Column '' @ [CHR 0x27] @ s @ [CHR 0x27] @ '' already exists.''"
  have "sublist s ((''Column '' @ [CHR 0x27]) @ s @ ([CHR 0x27] @ '' already exists.''))"
    by (rule sublist_appendI)
  then have sub: "sublist s ?msg" by simp
  from assms have "add h self trm (PyStr s) False = (Inl (KeyError [PyStr ?msg]), h, self)"
    by (simp add: add_str exists_message_def Pipeline_columns_def)
  with sub assms(2) show ?thesis by simp
qed

theorem add_collision_witness:
  "\<exists>msg h' self'.
     add \<lparr>dicts = (\<lambda>a. [PyStr ''f'' \<mapsto> PyTerm Factor 0]), nxt = 1\<rparr>
         \<lparr>p_name = PyStr ''test'', p_columns = 0, p_screen = PyNone\<rparr>
         (PyTerm Factor 1) (PyStr ''f'') False
       = (Inl (KeyError [PyStr msg]), h', self')
   \<and> msg = ''Column '' @ [CHR 0x27] @ ''f'' @ [CHR 0x27] @ '' already exists.''
   \<and> dicts h' (Pipeline_columns self') (PyStr ''f'') = Some (PyTerm Factor 0)"
  using add_collision [of "PyTerm Factor 1"
      "\<lparr>dicts = (\<lambda>a. [PyStr ''f'' \<mapsto> PyTerm Factor 0]), nxt = 1\<rparr>"
      "\<lparr>p_name = PyStr ''test'', p_columns = 0, p_screen = PyNone\<rparr>" "''f''" "PyTerm Factor 0"]
  by (simp add: Pipeline_columns_def)



text \<open>
  C3. \<^verbatim>\<open>remove(s)\<close> on a bound string \<open>s\<close> deletes the entry and returns the term that
  was bound to it. On an unbound \<open>s\<close> it raises \<^verbatim>\<open>KeyError\<close> with \<^verbatim>\<open>args == (s,)\<close>
  and returns the store and the pipeline as they were.
\<close>

theorem remove_returns_or_raises:
  "(dicts h (Pipeline_columns self) (PyStr s) = Some t \<longrightarrow>
      (\<exists>h'. remove h self (PyStr s) = (Inr t, h', self)
           \<and> dicts h' (Pipeline_columns self)
               = (dicts h (Pipeline_columns self))(PyStr s := None)
           \<and> dicts h' (Pipeline_columns self) (PyStr s) = None))
   \<and> (dicts h (Pipeline_columns self) (PyStr s) = None \<longrightarrow>
        remove h self (PyStr s) = (Inl (KeyError [PyStr s]), h, self))"
  by (simp add: remove_str Pipeline_columns_def)

theorem remove_returns_or_raises_witness:
  "(\<exists>h'. remove \<lparr>dicts = (\<lambda>a. [PyStr ''f'' \<mapsto> PyTerm Factor 0]), nxt = 1\<rparr>
             \<lparr>p_name = PyStr ''test'', p_columns = 0, p_screen = PyNone\<rparr> (PyStr ''f'')
          = (Inr (PyTerm Factor 0), h',
             \<lparr>p_name = PyStr ''test'', p_columns = 0, p_screen = PyNone\<rparr>)
        \<and> dicts h' 0 (PyStr ''f'') = None)
   \<and> remove \<lparr>dicts = (\<lambda>a. Map.empty), nxt = 1\<rparr>
        \<lparr>p_name = PyStr ''test'', p_columns = 0, p_screen = PyNone\<rparr> (PyStr ''missing'')
      = (Inl (KeyError [PyStr ''missing'']), \<lparr>dicts = (\<lambda>a. Map.empty), nxt = 1\<rparr>,
         \<lparr>p_name = PyStr ''test'', p_columns = 0, p_screen = PyNone\<rparr>)"
  using remove_returns_or_raises [of
      "\<lparr>dicts = (\<lambda>a. [PyStr ''f'' \<mapsto> PyTerm Factor 0]), nxt = 1\<rparr>"
      "\<lparr>p_name = PyStr ''test'', p_columns = 0, p_screen = PyNone\<rparr>" "''f''" "PyTerm Factor 0"]
    remove_returns_or_raises [of "\<lparr>dicts = (\<lambda>a. Map.empty), nxt = 1\<rparr>"
      "\<lparr>p_name = PyStr ''test'', p_columns = 0, p_screen = PyNone\<rparr>" "''missing''"]
  by (auto simp add: Pipeline_columns_def)

text \<open>
  C4. When a screen is already set, \<^verbatim>\<open>set_screen(g)\<close> with \<^verbatim>\<open>overwrite=False\<close> raises a
  \<^verbatim>\<open>ValueError\<close> whose message names both remedies, \<^verbatim>\<open>set_screen(filter1 & filter2 & ...)\<close>
  and \<^verbatim>\<open>set_screen(new_filter, overwrite=True)\<close>, and the screen stays as it was; with
  \<^verbatim>\<open>overwrite=True\<close> the screen becomes \<open>g\<close>.
\<close>

theorem set_screen_conflict:
  assumes "Pipeline_screen self = f" and "f \<noteq> PyNone" and "isinstance g T_Filter"
  shows "\<exists>h' self' h'' self''.
           set_screen h self g False = (Inl (ValueError [PyStr set_screen_message]), h', self')
         \<and> sublist ''use set_screen(filter1 & filter2 & ...)'' set_screen_message
         \<and> sublist ''use set_screen(new_filter, overwrite=True)'' set_screen_message
         \<and> h' = h \<and> self' = self \<and> Pipeline_screen self' = f
         \<and> set_screen h self g True = (Inr (), h'', self'')
         \<and> h'' = h \<and> self'' = self\<lparr>p_screen := g\<rparr> \<and> Pipeline_screen self'' = g"
proof -
  have "sublist ''use set_screen(filter1 & filter2 & ...)''
          ((''set_screen() called with overwrite=False and screen already set.'' @ [CHR 0x0A]
             @ ''If you want to apply multiple filters as a screen '')
           @ ''use set_screen(filter1 & filter2 & ...)''
           @ (''.'' @ [CHR 0x0A]
              @ ''If you want to replace the previous screen with a new one, use ''
              @ ''set_screen(new_filter, overwrite=True)'' @ ''.''))"
    by (rule sublist_appendI)
  then have a: "sublist ''use set_screen(filter1 & filter2 & ...)'' set_screen_message"
    by (simp add: set_screen_message_def)
  have "sublist ''use set_screen(new_filter, overwrite=True)''
          ((''set_screen() called with overwrite=False and screen already set.'' @ [CHR 0x0A]
             @ ''If you want to apply multiple filters as a screen use ''
             @ ''set_screen(filter1 & filter2 & ...)'' @ ''.'' @ [CHR 0x0A]
             @ ''If you want to replace the previous screen with a new one, '')
           @ ''use set_screen(new_filter, overwrite=True)'' @ ''.'')"
    by (rule sublist_appendI)
  then have b: "sublist ''use set_screen(new_filter, overwrite=True)'' set_screen_message"
    by (simp add: set_screen_message_def)
  from assms a b show ?thesis
    by (simp add: set_screen_eq Pipeline_screen_def)
qed

theorem set_screen_conflict_witness:
  "set_screen \<lparr>dicts = (\<lambda>a. Map.empty), nxt = 1\<rparr>
     \<lparr>p_name = PyStr ''test'', p_columns = 0, p_screen = PyTerm Filter 0\<rparr> (PyTerm Filter 1) False
   = (Inl (ValueError [PyStr set_screen_message]), \<lparr>dicts = (\<lambda>a. Map.empty), nxt = 1\<rparr>,
      \<lparr>p_name = PyStr ''test'', p_columns = 0, p_screen = PyTerm Filter 0\<rparr>)
   \<and> set_screen \<lparr>dicts = (\<lambda>a. Map.empty), nxt = 1\<rparr>
       \<lparr>p_name = PyStr ''test'', p_columns = 0, p_screen = PyTerm Filter 0\<rparr> (PyTerm Filter 1) True
     = (Inr (), \<lparr>dicts = (\<lambda>a. Map.empty), nxt = 1\<rparr>,
        \<lparr>p_name = PyStr ''test'', p_columns = 0, p_screen = PyTerm Filter 1\<rparr>)"
  using set_screen_conflict [of
      "\<lparr>p_name = PyStr ''test'', p_columns = 0, p_screen = PyTerm Filter 0\<rparr>" "PyTerm Filter 0"
      "PyTerm Filter 1" "\<lparr>dicts = (\<lambda>a. Map.empty), nxt = 1\<rparr>"]
  by (simp add: Pipeline_screen_def)

text \<open>
  C5. \<^verbatim>\<open>to_graph(sn, default_screen)\<close> with a string \<open>sn\<close> allocates a new dict, distinct
  from the pipeline's own, whose contents are those of the columns with \<open>sn\<close> bound to
  the screen if one is set and to \<open>default_screen\<close> otherwise; it returns what
  \<open>TermGraph\<close> makes of exactly that dict. When \<open>sn\<close> is already a column name, the new
  dict binds it to that screen, while the pipeline's own dict keeps every binding,
  that of \<open>sn\<close> included.
\<close>

theorem to_graph_builds_copy:
  assumes "allocated h self"
  shows "\<exists>cp h'.
           to_graph TermGraph h self (PyStr sn) default_screen = (TermGraph (dicts h' cp), h', self)
         \<and> cp \<noteq> Pipeline_columns self
         \<and> dicts h' cp =
             (dicts h (Pipeline_columns self))
               (PyStr sn \<mapsto> (if Pipeline_screen self = PyNone then default_screen
                              else Pipeline_screen self))
         \<and> dicts h' cp (PyStr sn) =
             Some (if Pipeline_screen self = PyNone then default_screen else Pipeline_screen self)
         \<and> dicts h' (Pipeline_columns self) = dicts h (Pipeline_columns self)"
proof -
  from assms have fresh: "nxt h \<noteq> p_columns self"
    by (simp add: allocated_def)
  let ?h' = "h\<lparr>dicts := (dicts h)(nxt h := (dicts h (p_columns self))
                 (PyStr sn \<mapsto> (if p_screen self = PyNone then default_screen else p_screen self))),
               nxt := Suc (nxt h)\<rparr>"
  have run: "to_graph TermGraph h self (PyStr sn) default_screen
               = (TermGraph (dicts ?h' (nxt h)), ?h', self)"
    by (simp add: to_graph_eq hashable_def Let_def)
  show ?thesis
  proof (intro exI conjI)
    show "to_graph TermGraph h self (PyStr sn) default_screen
            = (TermGraph (dicts ?h' (nxt h)), ?h', self)"
      by (rule run)
    show "nxt h \<noteq> Pipeline_columns self"
      using fresh by (simp add: Pipeline_columns_def)
    show "dicts ?h' (nxt h) =
            (dicts h (Pipeline_columns self))
              (PyStr sn \<mapsto> (if Pipeline_screen self = PyNone then default_screen
                             else Pipeline_screen self))"
      by (simp add: Pipeline_columns_def Pipeline_screen_def)
    show "dicts ?h' (nxt h) (PyStr sn) =
            Some (if Pipeline_screen self = PyNone then default_screen else Pipeline_screen self)"
      by (simp add: Pipeline_screen_def)
    show "dicts ?h' (Pipeline_columns self) = dicts h (Pipeline_columns self)"
      using fresh by (simp add: Pipeline_columns_def)
  qed
qed

theorem to_graph_builds_copy_witness:
  "\<exists>h'. to_graph (\<lambda>m. Inr (m (PyStr ''f''), m (PyStr ''g'')))
           \<lparr>dicts = (\<lambda>a. [PyStr ''f'' \<mapsto> PyTerm Factor 0, PyStr ''g'' \<mapsto> PyTerm Factor 1]),
            nxt = 1\<rparr>
           \<lparr>p_name = PyStr ''test'', p_columns = 0, p_screen = PyNone\<rparr>
           (PyStr ''f'') (PyTerm Filter 7)
         = (Inr (Some (PyTerm Filter 7), Some (PyTerm Factor 1)), h',
            \<lparr>p_name = PyStr ''test'', p_columns = 0, p_screen = PyNone\<rparr>)
       \<and> dicts h' 0 (PyStr ''f'') = Some (PyTerm Factor 0)"
  using to_graph_builds_copy [of
      "\<lparr>dicts = (\<lambda>a. [PyStr ''f'' \<mapsto> PyTerm Factor 0, PyStr ''g'' \<mapsto> PyTerm Factor 1]),
        nxt = 1\<rparr>"
      "\<lparr>p_name = PyStr ''test'', p_columns = 0, p_screen = PyNone\<rparr>"
      "\<lambda>m. Inr (m (PyStr ''f''), m (PyStr ''g''))" "''f''" "PyTerm Filter 7"]
  by (auto simp add: allocated_def Pipeline_columns_def Pipeline_screen_def)

text \<open>
  C6. Whatever \<open>screen_name\<close> and \<open>default_screen\<close> are, and whether \<^verbatim>\<open>to_graph\<close>
  returns or raises, the pipeline object is returned as it was, the contents of its
  columns dict are the same, and so is every dict that existed before the call.
\<close>

theorem to_graph_no_mutation:
  assumes "allocated h self"
    and "to_graph TermGraph h self screen_name default_screen = (r, h', self')"
  shows "self' = self
       \<and> dicts h' (Pipeline_columns self') = dicts h (Pipeline_columns self)
       \<and> Pipeline_screen self' = Pipeline_screen self
       \<and> observe h' self' = observe h self
       \<and> (\<forall>a. a < nxt h \<longrightarrow> dicts h' a = dicts h a)"
proof -
  from assms(2) have same: "self' = self"
    by (simp add: to_graph_eq Let_def split: if_splits)
  from assms(2) have old: "\<forall>a. a < nxt h \<longrightarrow> dicts h' a = dicts h a"
    by (auto simp add: to_graph_eq Let_def split: if_splits)
  from assms(1) have "p_columns self < nxt h"
    by (simp add: allocated_def)
  with old have "dicts h' (p_columns self) = dicts h (p_columns self)"
    by simp
  with same old show ?thesis
    by (simp add: observe_def Pipeline_columns_def)
qed

theorem to_graph_no_mutation_witness:
  "\<exists>r h' self'.
     to_graph (\<lambda>m. Inr (m (PyStr ''f'')))
       \<lparr>dicts = (\<lambda>a. [PyStr ''f'' \<mapsto> PyTerm Factor 0]), nxt = 1\<rparr>
       \<lparr>p_name = PyStr ''test'', p_columns = 0, p_screen = PyTerm Filter 3\<rparr>
       (PyStr ''f'') (PyTerm Filter 7) = (r, h', self')
   \<and> r = Inr (Some (PyTerm Filter 3))
   \<and> observe h' self' = (PyStr ''test'', [PyStr ''f'' \<mapsto> PyTerm Factor 0], PyTerm Filter 3)"
proof -
  let ?h = "\<lparr>dicts = (\<lambda>a. [PyStr ''f'' \<mapsto> PyTerm Factor 0]), nxt = 1\<rparr>"
  let ?p = "\<lparr>p_name = PyStr ''test'', p_columns = 0, p_screen = PyTerm Filter 3\<rparr>"
  let ?tg = "\<lambda>m::pydict. (Inr (m (PyStr ''f'')) :: exn + pyobj option)"
  obtain r h' self' where run: "to_graph ?tg ?h ?p (PyStr ''f'') (PyTerm Filter 7) = (r, h', self')"
    by (cases "to_graph ?tg ?h ?p (PyStr ''f'') (PyTerm Filter 7)") auto
  have alloc: "allocated ?h ?p"
    by (simp add: allocated_def)
  from to_graph_no_mutation [OF alloc run]
  have "observe h' self' = observe ?h ?p"
    by blast
  moreover from run have "r = Inr (Some (PyTerm Filter 3))"
    by (simp add: to_graph_eq hashable_def Let_def)
  ultimately show ?thesis
    using run by (simp add: observe_def Pipeline_name_def Pipeline_columns_def Pipeline_screen_def)
qed

text \<open>
  C7. Whenever \<^verbatim>\<open>add\<close>, \<^verbatim>\<open>remove\<close> or \<^verbatim>\<open>set_screen\<close> raises, whatever the exception
  and whatever the arguments, the store and the pipeline object are those from before
  the call, and so are the name, the contents of the columns and the screen.
\<close>

theorem failure_leaves_state:
  "(add h self trm name overwrite = (Inl e, h', self') \<longrightarrow>
      h' = h \<and> self' = self \<and> observe h' self' = observe h self)
   \<and> (remove h self name = (Inl e, h', self') \<longrightarrow>
        h' = h \<and> self' = self \<and> observe h' self' = observe h self)
   \<and> (set_screen h self screen overwrite = (Inl e, h', self') \<longrightarrow>
        h' = h \<and> self' = self \<and> observe h' self' = observe h self)"
proof (intro conjI impI)
  assume "add h self trm name overwrite = (Inl e, h', self')"
  then have "h' = h \<and> self' = self" by (rule add_raises)
  then show "h' = h" and "self' = self" and "observe h' self' = observe h self" by simp_all
next
  assume "remove h self name = (Inl e, h', self')"
  then have "h' = h \<and> self' = self" by (rule remove_raises)
  then show "h' = h" and "self' = self" and "observe h' self' = observe h self" by simp_all
next
  assume "set_screen h self screen overwrite = (Inl e, h', self')"
  then have "h' = h \<and> self' = self" by (rule set_screen_raises)
  then show "h' = h" and "self' = self" and "observe h' self' = observe h self" by simp_all
qed

text \<open>
  The witness runs the four kinds of failure on a pipeline with one column and a screen:
  a key collision and a type mismatch in \<^verbatim>\<open>add\<close>, a missing key in \<^verbatim>\<open>remove\<close> and a
  second \<^verbatim>\<open>set_screen\<close>.
\<close>

theorem failure_leaves_state_witness:
  "(\<exists>e h' self'.
      add \<lparr>dicts = (\<lambda>a. [PyStr ''f'' \<mapsto> PyTerm Factor 0]), nxt = 1\<rparr>
        \<lparr>p_name = PyStr ''test'', p_columns = 0, p_screen = PyTerm Filter 3\<rparr>
        (PyTerm Factor 1) (PyStr ''f'') False = (Inl e, h', self')
    \<and> observe h' self' = (PyStr ''test'', [PyStr ''f'' \<mapsto> PyTerm Factor 0], PyTerm Filter 3))
   \<and> (\<exists>h' self'.
      add \<lparr>dicts = (\<lambda>a. [PyStr ''f'' \<mapsto> PyTerm Factor 0]), nxt = 1\<rparr>
        \<lparr>p_name = PyStr ''test'', p_columns = 0, p_screen = PyTerm Filter 3\<rparr>
        (PyTerm Factor 1) (PyInt 1) True = (Inl TypeError, h', self')
    \<and> observe h' self' = (PyStr ''test'', [PyStr ''f'' \<mapsto> PyTerm Factor 0], PyTerm Filter 3))
   \<and> (\<exists>h' self'.
      remove \<lparr>dicts = (\<lambda>a. [PyStr ''f'' \<mapsto> PyTerm Factor 0]), nxt = 1\<rparr>
        \<lparr>p_name = PyStr ''test'', p_columns = 0, p_screen = PyTerm Filter 3\<rparr>
        (PyStr ''missing'') = (Inl (KeyError [PyStr ''missing'']), h', self')
    \<and> observe h' self' = (PyStr ''test'', [PyStr ''f'' \<mapsto> PyTerm Factor 0], PyTerm Filter 3))
   \<and> (\<exists>e h' self'.
      set_screen \<lparr>dicts = (\<lambda>a. [PyStr ''f'' \<mapsto> PyTerm Factor 0]), nxt = 1\<rparr>
        \<lparr>p_name = PyStr ''test'', p_columns = 0, p_screen = PyTerm Filter 3\<rparr>
        (PyTerm Filter 4) False = (Inl e, h', self')
    \<and> observe h' self' = (PyStr ''test'', [PyStr ''f'' \<mapsto> PyTerm Factor 0], PyTerm Filter 3))"
proof -
  let ?h = "\<lparr>dicts = (\<lambda>a. [PyStr ''f'' \<mapsto> PyTerm Factor 0]), nxt = 1\<rparr>"
  let ?p = "\<lparr>p_name = PyStr ''test'', p_columns = 0, p_screen = PyTerm Filter 3\<rparr>"
  have obs: "observe ?h ?p = (PyStr ''test'', [PyStr ''f'' \<mapsto> PyTerm Factor 0], PyTerm Filter 3)"
    by (simp add: observe_def Pipeline_name_def Pipeline_columns_def Pipeline_screen_def)
  obtain e1 h1 p1 where 1: "add ?h ?p (PyTerm Factor 1) (PyStr ''f'') False = (Inl e1, h1, p1)"
    by (simp add: add_str)
  obtain h2 p2 where 2: "add ?h ?p (PyTerm Factor 1) (PyInt 1) True = (Inl TypeError, h2, p2)"
    by (simp add: add_bad_types)
  obtain h3 p3 where
    3: "remove ?h ?p (PyStr ''missing'') = (Inl (KeyError [PyStr ''missing'']), h3, p3)"
    by (simp add: remove_str)
  obtain e4 h4 p4 where 4: "set_screen ?h ?p (PyTerm Filter 4) False = (Inl e4, h4, p4)"
    by (simp add: set_screen_eq)
  from failure_leaves_state [of ?h ?p "PyTerm Factor 1" "PyStr ''f''" False e1 h1 p1] 1
  have a: "observe h1 p1 = observe ?h ?p" by blast
  from failure_leaves_state [of ?h ?p "PyTerm Factor 1" "PyInt 1" True TypeError h2 p2] 2
  have b: "observe h2 p2 = observe ?h ?p" by blast
  from failure_leaves_state [of ?h ?p _ "PyStr ''missing''" _ "KeyError [PyStr ''missing'']" h3 p3] 3
  have c: "observe h3 p3 = observe ?h ?p" by blast
  from failure_leaves_state [of ?h ?p _ _ False e4 h4 p4 "PyTerm Filter 4"] 4
  have d: "observe h4 p4 = observe ?h ?p" by blast
  from 1 a obs have "\<exists>e h' self'.
      add ?h ?p (PyTerm Factor 1) (PyStr ''f'') False = (Inl e, h', self')
    \<and> observe h' self' = (PyStr ''test'', [PyStr ''f'' \<mapsto> PyTerm Factor 0], PyTerm Filter 3)"
    by (intro exI [of _ e1] exI [of _ h1] exI [of _ p1]) simp
  moreover from 2 b obs have "\<exists>h' self'.
      add ?h ?p (PyTerm Factor 1) (PyInt 1) True = (Inl TypeError, h', self')
    \<and> observe h' self' = (PyStr ''test'', [PyStr ''f'' \<mapsto> PyTerm Factor 0], PyTerm Filter 3)"
    by (intro exI [of _ h2] exI [of _ p2]) simp
  moreover from 3 c obs have "\<exists>h' self'.
      remove ?h ?p (PyStr ''missing'') = (Inl (KeyError [PyStr ''missing'']), h', self')
    \<and> observe h' self' = (PyStr ''test'', [PyStr ''f'' \<mapsto> PyTerm Factor 0], PyTerm Filter 3)"
    by (intro exI [of _ h3] exI [of _ p3]) simp
  moreover from 4 d obs have "\<exists>e h' self'.
      set_screen ?h ?p (PyTerm Filter 4) False = (Inl e, h', self')
    \<and> observe h' self' = (PyStr ''test'', [PyStr ''f'' \<mapsto> PyTerm Factor 0], PyTerm Filter 3)"
    by (intro exI [of _ e4] exI [of _ h4] exI [of _ p4]) simp
  ultimately show ?thesis by blast
qed

text \<open>
  C8. The constructor raises \<^verbatim>\<open>TypeError\<close> when \<^verbatim>\<open>name\<close> is not a string, when a
  \<^verbatim>\<open>columns\<close> argument is given and is not a dict, or when \<^verbatim>\<open>screen\<close> is a Term that is
  not a Filter. It then returns no instance, and the store is as before: no dict has been
  allocated and no slot set. In Python an argument that is left out is \<^verbatim>\<open>None\<close>, which
  \<^verbatim>\<open>optional(dict)\<close> admits, so a given \<^verbatim>\<open>columns\<close> argument is one other than \<^verbatim>\<open>None\<close>.
\<close>

theorem init_type_mismatch:
  assumes "\<not> isinstance name T_str
         \<or> (columns \<noteq> PyNone \<and> \<not> isinstance columns T_dict)
         \<or> (isinstance screen T_Term \<and> \<not> isinstance screen T_Filter)"
  shows "init h name columns screen = (Inl TypeError, h)"
proof -
  from assms
  have "\<not> (isinstance name T_str
           \<and> (isinstance columns T_dict \<or> isinstance columns T_NoneType)
           \<and> (isinstance screen T_Filter \<or> isinstance screen T_NoneType))"
    by (cases screen) auto
  then show ?thesis
    by (auto simp add: init_def expect_types_def optional_def)
qed

theorem init_type_mismatch_witness:
  "init \<lparr>dicts = (\<lambda>a. Map.empty), nxt = 0\<rparr> (PyInt 1) PyNone PyNone
     = (Inl TypeError, \<lparr>dicts = (\<lambda>a. Map.empty), nxt = 0\<rparr>)
   \<and> init \<lparr>dicts = (\<lambda>a. Map.empty), nxt = 0\<rparr> (PyStr ''test'') (PyInt 1) PyNone
     = (Inl TypeError, \<lparr>dicts = (\<lambda>a. Map.empty), nxt = 0\<rparr>)
   \<and> init \<lparr>dicts = (\<lambda>a. Map.empty), nxt = 1\<rparr> (PyStr ''test'') (PyDict 0) (PyTerm Factor 0)
     = (Inl TypeError, \<lparr>dicts = (\<lambda>a. Map.empty), nxt = 1\<rparr>)"
  using init_type_mismatch [of "PyInt 1" PyNone PyNone "\<lparr>dicts = (\<lambda>a. Map.empty), nxt = 0\<rparr>"]
    init_type_mismatch [of "PyStr ''test''" "PyInt 1" PyNone
      "\<lparr>dicts = (\<lambda>a. Map.empty), nxt = 0\<rparr>"]
    init_type_mismatch [of "PyStr ''test''" "PyDict 0" "PyTerm Factor 0"
      "\<lparr>dicts = (\<lambda>a. Map.empty), nxt = 1\<rparr>"]
  by simp

text \<open>
  C9. Constructing a pipeline with a string name and nothing else (the defaults
  \<^verbatim>\<open>columns=None\<close> and \<^verbatim>\<open>screen=None\<close>) returns an instance with that name, whose
  columns dict is a new, empty dict and whose screen is \<^verbatim>\<open>None\<close>.
\<close>

theorem init_defaults:
  "\<exists>p h'. init h (PyStr s) PyNone PyNone = (Inr p, h')
         \<and> Pipeline_name p = PyStr s
         \<and> dicts h' (Pipeline_columns p) = Map.empty
         \<and> Pipeline_screen p = PyNone
         \<and> Pipeline_columns p = nxt h
         \<and> allocated h' p"
  by (simp add: init_def expect_types_def optional_def dict_new_def Pipeline_name_def
      Pipeline_columns_def Pipeline_screen_def allocated_def)

theorem init_defaults_witness:
  "\<exists>p h'. init \<lparr>dicts = (\<lambda>a. Map.empty), nxt = 0\<rparr> (PyStr ''arglebargle'') PyNone PyNone
            = (Inr p, h')
         \<and> observe h' p = (PyStr ''arglebargle'', Map.empty, PyNone)"
  using init_defaults [of "\<lparr>dicts = (\<lambda>a. Map.empty), nxt = 0\<rparr>" "''arglebargle''"]
  by (auto simp add: observe_def)

text \<open>
  C10. When \<^verbatim>\<open>add\<close> or \<^verbatim>\<open>remove\<close> returns, the pipeline object is as before (same
  name, same screen, same dict object) and no dict other than the pipeline's own has
  changed. When \<^verbatim>\<open>set_screen\<close> returns, the store is as before, and the pipeline has the
  same name and the same columns.
\<close>

theorem success_touches_own_field:
  "(add h self trm name overwrite = (Inr u, h', self') \<longrightarrow>
      Pipeline_name self' = Pipeline_name self
    \<and> Pipeline_screen self' = Pipeline_screen self
    \<and> Pipeline_columns self' = Pipeline_columns self
    \<and> nxt h' = nxt h
    \<and> (\<forall>a. a \<noteq> Pipeline_columns self \<longrightarrow> dicts h' a = dicts h a))
   \<and> (remove h self name = (Inr v, h', self') \<longrightarrow>
      Pipeline_name self' = Pipeline_name self
    \<and> Pipeline_screen self' = Pipeline_screen self
    \<and> Pipeline_columns self' = Pipeline_columns self
    \<and> nxt h' = nxt h
    \<and> (\<forall>a. a \<noteq> Pipeline_columns self \<longrightarrow> dicts h' a = dicts h a))
   \<and> (set_screen h self screen overwrite = (Inr u, h', self') \<longrightarrow>
      Pipeline_name self' = Pipeline_name self
    \<and> Pipeline_columns self' = Pipeline_columns self
    \<and> h' = h
    \<and> dicts h' (Pipeline_columns self') = dicts h (Pipeline_columns self))"
proof (intro conjI impI)
  assume run: "add h self trm name overwrite = (Inr u, h', self')"
  then have types: "isinstance trm T_Term \<and> isinstance name T_str"
    using add_bad_types [of trm name h self overwrite] by auto
  then obtain s where "name = PyStr s" using isinstance_strE by blast
  with run types
  have "self' = self \<and> nxt h' = nxt h \<and> (\<forall>a. a \<noteq> p_columns self \<longrightarrow> dicts h' a = dicts h a)"
    by (auto simp add: add_str split: if_splits)
  then show "Pipeline_name self' = Pipeline_name self"
    and "Pipeline_screen self' = Pipeline_screen self"
    and "Pipeline_columns self' = Pipeline_columns self"
    and "nxt h' = nxt h"
    and "\<forall>a. a \<noteq> Pipeline_columns self \<longrightarrow> dicts h' a = dicts h a"
    by (simp_all add: Pipeline_columns_def)
next
  assume run: "remove h self name = (Inr v, h', self')"
  then have "isinstance name T_str"
    using remove_not_str [of name h self] by auto
  then obtain s where "name = PyStr s" using isinstance_strE by blast
  with run
  have "self' = self \<and> nxt h' = nxt h \<and> (\<forall>a. a \<noteq> p_columns self \<longrightarrow> dicts h' a = dicts h a)"
    by (auto simp add: remove_str split: option.splits)
  then show "Pipeline_name self' = Pipeline_name self"
    and "Pipeline_screen self' = Pipeline_screen self"
    and "Pipeline_columns self' = Pipeline_columns self"
    and "nxt h' = nxt h"
    and "\<forall>a. a \<noteq> Pipeline_columns self \<longrightarrow> dicts h' a = dicts h a"
    by (simp_all add: Pipeline_columns_def)
next
  assume "set_screen h self screen overwrite = (Inr u, h', self')"
  then have "h' = h \<and> self' = self\<lparr>p_screen := screen\<rparr>"
    by (auto simp add: set_screen_eq split: if_splits)
  then show "Pipeline_name self' = Pipeline_name self"
    and "Pipeline_columns self' = Pipeline_columns self"
    and "h' = h"
    and "dicts h' (Pipeline_columns self') = dicts h (Pipeline_columns self)"
    by (simp_all add: Pipeline_name_def Pipeline_columns_def)
qed

theorem success_touches_own_field_witness:
  "(\<exists>h' self'.
      add \<lparr>dicts = (\<lambda>a. [PyStr ''f'' \<mapsto> PyTerm Factor 0]), nxt = 2\<rparr>
        \<lparr>p_name = PyStr ''test'', p_columns = 0, p_screen = PyTerm Filter 3\<rparr>
        (PyTerm Factor 1) (PyStr ''g'') False = (Inr (), h', self')
    \<and> Pipeline_name self' = PyStr ''test'' \<and> Pipeline_screen self' = PyTerm Filter 3
    \<and> dicts h' 1 = [PyStr ''f'' \<mapsto> PyTerm Factor 0])
   \<and> (\<exists>h' self'.
      remove \<lparr>dicts = (\<lambda>a. [PyStr ''f'' \<mapsto> PyTerm Factor 0]), nxt = 2\<rparr>
        \<lparr>p_name = PyStr ''test'', p_columns = 0, p_screen = PyTerm Filter 3\<rparr>
        (PyStr ''f'') = (Inr (PyTerm Factor 0), h', self')
    \<and> Pipeline_name self' = PyStr ''test'' \<and> Pipeline_screen self' = PyTerm Filter 3
    \<and> dicts h' 1 = [PyStr ''f'' \<mapsto> PyTerm Factor 0])
   \<and> (\<exists>h' self'.
      set_screen \<lparr>dicts = (\<lambda>a. [PyStr ''f'' \<mapsto> PyTerm Factor 0]), nxt = 2\<rparr>
        \<lparr>p_name = PyStr ''test'', p_columns = 0, p_screen = PyNone\<rparr>
        (PyTerm Filter 3) False = (Inr (), h', self')
    \<and> Pipeline_name self' = PyStr ''test''
    \<and> dicts h' (Pipeline_columns self') = [PyStr ''f'' \<mapsto> PyTerm Factor 0])"
proof -
  let ?h = "\<lparr>dicts = (\<lambda>a. [PyStr ''f'' \<mapsto> PyTerm Factor 0]), nxt = 2\<rparr>"
  let ?p = "\<lparr>p_name = PyStr ''test'', p_columns = 0, p_screen = PyTerm Filter 3\<rparr>"
  let ?q = "\<lparr>p_name = PyStr ''test'', p_columns = 0, p_screen = PyNone\<rparr>"
  have cols: "dicts ?h (Pipeline_columns ?q) = [PyStr ''f'' \<mapsto> PyTerm Factor 0]"
    by simp
  obtain h1 p1 where 1: "add ?h ?p (PyTerm Factor 1) (PyStr ''g'') False = (Inr (), h1, p1)"
    by (simp add: add_str)
  obtain h2 p2 where 2: "remove ?h ?p (PyStr ''f'') = (Inr (PyTerm Factor 0), h2, p2)"
    by (simp add: remove_str)
  obtain h3 p3 where 3: "set_screen ?h ?q (PyTerm Filter 3) False = (Inr (), h3, p3)"
    by (simp add: set_screen_eq)
  from success_touches_own_field [of ?h ?p "PyTerm Factor 1" "PyStr ''g''" False "()" h1 p1] 1
  have a: "Pipeline_name p1 = PyStr ''test'' \<and> Pipeline_screen p1 = PyTerm Filter 3
         \<and> dicts h1 1 = [PyStr ''f'' \<mapsto> PyTerm Factor 0]"
    by (simp add: Pipeline_name_def Pipeline_columns_def Pipeline_screen_def)
  from success_touches_own_field [of ?h ?p _ "PyStr ''f''" _ _ h2 p2 "PyTerm Factor 0"] 2
  have b: "Pipeline_name p2 = PyStr ''test'' \<and> Pipeline_screen p2 = PyTerm Filter 3
         \<and> dicts h2 1 = [PyStr ''f'' \<mapsto> PyTerm Factor 0]"
    by (simp add: Pipeline_name_def Pipeline_columns_def Pipeline_screen_def)
  from success_touches_own_field [of ?h ?q _ _ False "()" h3 p3 _ "PyTerm Filter 3"] 3
  have "Pipeline_name p3 = Pipeline_name ?q
      \<and> dicts h3 (Pipeline_columns p3) = dicts ?h (Pipeline_columns ?q)"
    by blast
  with cols have c: "Pipeline_name p3 = PyStr ''test''
         \<and> dicts h3 (Pipeline_columns p3) = [PyStr ''f'' \<mapsto> PyTerm Factor 0]"
    by (simp add: Pipeline_name_def)
  from 1 a have "\<exists>h' self'.
      add ?h ?p (PyTerm Factor 1) (PyStr ''g'') False = (Inr (), h', self')
    \<and> Pipeline_name self' = PyStr ''test'' \<and> Pipeline_screen self' = PyTerm Filter 3
    \<and> dicts h' 1 = [PyStr ''f'' \<mapsto> PyTerm Factor 0]"
    by (intro exI [of _ h1] exI [of _ p1]) simp
  moreover from 2 b have "\<exists>h' self'.
      remove ?h ?p (PyStr ''f'') = (Inr (PyTerm Factor 0), h', self')
    \<and> Pipeline_name self' = PyStr ''test'' \<and> Pipeline_screen self' = PyTerm Filter 3
    \<and> dicts h' 1 = [PyStr ''f'' \<mapsto> PyTerm Factor 0]"
    by (intro exI [of _ h2] exI [of _ p2]) simp
  moreover from 3 c have "\<exists>h' self'.
      set_screen ?h ?q (PyTerm Filter 3) False = (Inr (), h', self')
    \<and> Pipeline_name self' = PyStr ''test''
    \<and> dicts h' (Pipeline_columns self') = [PyStr ''f'' \<mapsto> PyTerm Factor 0]"
    by (intro exI [of _ h3] exI [of _ p3]) simp
  ultimately show ?thesis by blast
qed

end
